theory Spec2Isabelle
  imports Main "HOL-Library.AList"
begin

section \<open>JSON values and Python exceptions\<close>

text \<open>
  The module \<^verbatim>\<open>jussi/cache.py\<close> handles JSON-RPC requests and responses as Python
  objects decoded from JSON. A dict is an association list: Python dicts keep insertion
  order and have unique keys; lookup is \<open>map_of\<close>, item assignment is \<open>AList.update\<close>
  (in place when the key exists, appended otherwise) and \<^verbatim>\<open>del\<close> is \<open>AList.delete\<close>.
  Python's \<^verbatim>\<open>None\<close> is \<open>JNull\<close>. A bytes value, which a backend may hold, is a \<open>JStr\<close>
  too: the module only tests whether it is empty. A float is given by the text that
  Python's \<^verbatim>\<open>str\<close> prints for it (\<^verbatim>\<open>12345678.0\<close>, \<^verbatim>\<open>1e+20\<close>, \<^verbatim>\<open>nan\<close>), which determines
  the float; the module does no arithmetic on floats and only ever takes their
  \<^verbatim>\<open>str\<close> and their truth value.
\<close>

datatype json =
    JNull
  | JBool bool
  | JInt int
  | JFloat string
  | JStr string
  | JList "json list"
  | JDict "(string \<times> json) list"

type_synonym dict = "(string \<times> json) list"

datatype error = KeyError | TypeError | ValueError | BackendError | UpstreamError

text \<open>
  Python truthiness, as tested by \<^verbatim>\<open>if response:\<close>. The floats that are falsy are
  the two zeros, printed \<^verbatim>\<open>0.0\<close> and \<^verbatim>\<open>-0.0\<close>.
\<close>

fun truthy :: "json \<Rightarrow> bool" where
  "truthy JNull = False"
| "truthy (JBool b) = b"
| "truthy (JInt n) = (n \<noteq> 0)"
| "truthy (JFloat r) = (r \<noteq> ''0.0'' \<and> r \<noteq> ''-0.0'')"
| "truthy (JStr s) = (s \<noteq> [])"
| "truthy (JList xs) = (xs \<noteq> [])"
| "truthy (JDict d) = (d \<noteq> [])"

definition has_key :: "dict \<Rightarrow> string \<Rightarrow> bool" where
  "has_key d k = (k \<in> fst ` set d)"

section \<open>The response merger\<close>

text \<open>
  \<^verbatim>\<open>
  def merge_cached_response(cached_response: dict, jsonrpc_request:dict) -> dict:
      if 'id' in jsonrpc_request:
          cached_response['id'] = jsonrpc_request['id']
      else:
          del cached_response['id']
      return cached_response
  \<close>
  \<^verbatim>\<open>del\<close> of an absent key raises KeyError. A cached value that is not a dict supports
  neither item assignment nor item deletion with a string key: TypeError.
\<close>

fun merge_cached_response :: "json \<Rightarrow> dict \<Rightarrow> error + json" where
  "merge_cached_response (JDict cached_response) jsonrpc_request =
     (case map_of jsonrpc_request ''id'' of
        Some i \<Rightarrow> Inr (JDict (AList.update ''id'' i cached_response))
      | None \<Rightarrow>
          (if has_key cached_response ''id''
           then Inr (JDict (AList.delete ''id'' cached_response))
           else Inl KeyError))"
| "merge_cached_response _ jsonrpc_request = Inl TypeError"

section \<open>Block numbers\<close>

text \<open>
  \<^verbatim>\<open>cytoolz.get_in(keys, coll)\<close> with its default \<^verbatim>\<open>default=None, no_default=False\<close>
  folds \<^verbatim>\<open>operator.getitem\<close> over the keys and returns \<^verbatim>\<open>None\<close> on KeyError,
  IndexError or TypeError. The keys used here are strings, so every value that is not a
  dict holding the key gives \<^verbatim>\<open>None\<close>.
\<close>

fun get_in :: "string list \<Rightarrow> json \<Rightarrow> json" where
  "get_in [] coll = coll"
| "get_in (k # ks) (JDict d) =
     (case map_of d k of None \<Rightarrow> JNull | Some v \<Rightarrow> get_in ks v)"
| "get_in (k # ks) _ = JNull"

text \<open>
  Python's \<^verbatim>\<open>int(s, base=16)\<close> on a str (CPython's \<^verbatim>\<open>PyLong_FromString\<close>, from
  Python 3.6 on):
  leading whitespace, an optional sign, an optional \<^verbatim>\<open>0x\<close>/\<^verbatim>\<open>0X\<close> prefix (after
  which one underscore is allowed), then digits with single underscores between them,
  then trailing whitespace up to the end of the string; anything else is ValueError.
  A \<open>char\<close> stands for a code point below 256; the whitespace of that range is
  \<^verbatim>\<open>\t \n \v \f \r\<close>, \<^verbatim>\<open>\x1c\<close> to \<^verbatim>\<open>\x1f\<close>, the space, \<^verbatim>\<open>\x85\<close> and \<^verbatim>\<open>\xa0\<close>.
  \<open>digit_value\<close> is CPython's table \<^verbatim>\<open>_PyLong_DigitValue\<close>, 37 marking no digit.
\<close>

definition is_space :: "char \<Rightarrow> bool" where
  "is_space c =
     (let n = (of_char c :: nat)
      in (9 \<le> n \<and> n \<le> 13) \<or> (28 \<le> n \<and> n \<le> 32) \<or> n = 133 \<or> n = 160)"

definition digit_value :: "char \<Rightarrow> nat" where
  "digit_value c =
     (let n = (of_char c :: nat)
      in if 48 \<le> n \<and> n \<le> 57 then n - 48
         else if 97 \<le> n \<and> n \<le> 122 then n - 87
         else if 65 \<le> n \<and> n \<le> 90 then n - 55
         else 37)"

definition is_hex_digit :: "char \<Rightarrow> bool" where
  "is_hex_digit c = (digit_value c < 16)"

text \<open>The integer a digit string denotes in base 16, most significant digit first.\<close>

definition hex_value :: "string \<Rightarrow> int" where
  "hex_value s = foldl (\<lambda>a c. 16 * a + int (digit_value c)) 0 s"

fun skip_sign :: "string \<Rightarrow> bool \<times> string" where
  "skip_sign [] = (False, [])"
| "skip_sign (c # cs) =
     (if c = CHR ''+'' then (False, cs)
      else if c = CHR ''-'' then (True, cs)
      else (False, c # cs))"

fun skip_prefix :: "string \<Rightarrow> string" where
  "skip_prefix (z # x # cs) =
     (if z = CHR ''0'' \<and> (x = CHR ''x'' \<or> x = CHR ''X'')
      then (case cs of [] \<Rightarrow> [] | u # us \<Rightarrow> if u = CHR ''_'' then us else u # us)
      else z # x # cs)"
| "skip_prefix cs = cs"

text \<open>No two underscores in a row and none at the end.\<close>

fun underscores_ok :: "string \<Rightarrow> bool" where
  "underscores_ok [] = True"
| "underscores_ok [c] = (c \<noteq> CHR ''_'')"
| "underscores_ok (c # d # cs) =
     (\<not> (c = CHR ''_'' \<and> d = CHR ''_'') \<and> underscores_ok (d # cs))"

definition py_int16 :: "string \<Rightarrow> error + int" where
  "py_int16 s =
     (let (neg, s2) = skip_sign (dropWhile is_space s);
          s3 = skip_prefix s2
      in if s3 = [] \<or> hd s3 = CHR ''_'' then Inl ValueError
         else
           let scan = takeWhile (\<lambda>c. is_hex_digit c \<or> c = CHR ''_'') s3;
               rest = dropWhile (\<lambda>c. is_hex_digit c \<or> c = CHR ''_'') s3
           in if scan = [] \<or> \<not> underscores_ok scan then Inl ValueError
              else if dropWhile is_space rest \<noteq> [] then Inl ValueError
              else
                let v = hex_value (filter (\<lambda>c. c \<noteq> CHR ''_'') scan)
                in Inr (if neg then - v else v))"

text \<open>Python's \<^verbatim>\<open>str\<close> of an int: decimal digits, with a minus sign when negative.\<close>

fun str_nat :: "nat \<Rightarrow> string" where
  "str_nat n =
     (if n < 10 then [char_of (48 + n)]
      else str_nat (n div 10) @ [char_of (48 + n mod 10)])"

declare str_nat.simps [simp del]

definition str_int :: "int \<Rightarrow> string" where
  "str_int i = (if i < 0 then CHR ''-'' # str_nat (nat (- i)) else str_nat (nat i))"

text \<open>
  \<^verbatim>\<open>
  def block_num_from_id(block_hash: str) -> int:
      return int(str(block_hash)[:8], base=16)
  \<close>
  \<^verbatim>\<open>str\<close> of a list starts with \<^verbatim>\<open>[\<close> and \<^verbatim>\<open>str\<close> of a dict with \<^verbatim>\<open>{\<close>; neither is
  whitespace, a sign or a digit, so \<^verbatim>\<open>int\<close> raises ValueError whatever follows.
\<close>

fun block_num_from_id :: "json \<Rightarrow> error + int" where
  "block_num_from_id (JStr s) = py_int16 (take 8 s)"
| "block_num_from_id (JInt i) = py_int16 (take 8 (str_int i))"
| "block_num_from_id (JFloat r) = py_int16 (take 8 r)"
| "block_num_from_id JNull = py_int16 (take 8 ''None'')"
| "block_num_from_id (JBool b) = py_int16 (take 8 (if b then ''True'' else ''False''))"
| "block_num_from_id (JList xs) = Inl ValueError"
| "block_num_from_id (JDict d) = Inl ValueError"

text \<open>
  \<^verbatim>\<open>
  def block_num_from_jsonrpc_response(jsonrpc_response: dict = None) -> int:
      block_id = cytoolz.get_in(['result','block_id'],jsonrpc_response)
      return block_num_from_id(block_id)
  \<close>
\<close>

definition block_num_from_jsonrpc_response :: "json \<Rightarrow> error + int" where
  "block_num_from_jsonrpc_response jsonrpc_response =
     block_num_from_id (get_in [''result'', ''block_id''] jsonrpc_response)"

section \<open>TTL policy\<close>

text \<open>
  The module \<^verbatim>\<open>jussi.jsonrpc_method_cache_settings\<close> (the sentinels \<^verbatim>\<open>NO_CACHE\<close>,
  \<^verbatim>\<open>NO_EXPIRE\<close>, \<^verbatim>\<open>NO_EXPIRE_IF_IRREVERSIBLE\<close> and the trie \<^verbatim>\<open>TTLS\<close>) and
  \<^verbatim>\<open>jussi.utils.method_urn\<close> are used by this module and defined elsewhere. They are
  parameters of the model, gathered in one record; TTLs are ints, as the annotations of
  the module say.
\<close>

record settings =
  NO_CACHE :: int
  NO_EXPIRE :: int
  NO_EXPIRE_IF_IRREVERSIBLE :: int
  TTLS_longest_prefix :: "string \<Rightarrow> string \<times> int"
  method_urn :: "dict \<Rightarrow> string"

text \<open>
  \<^verbatim>\<open>
  def irreversible_ttl(jsonrpc_response: dict = None,
                       last_irreversible_block_num: int = 0) -> int:
      try:
          jrpc_block_num = block_num_from_jsonrpc_response(jsonrpc_response)
          if  last_irreversible_block_num < jrpc_block_num:
              return jussi.jsonrpc_method_cache_settings.NO_CACHE
          return jussi.jsonrpc_method_cache_settings.NO_EXPIRE
      except Exception as e:
          logger.warning('Unable to cache using last irreversible block: %s', e)
          return jussi.jsonrpc_method_cache_settings.NO_CACHE
  \<close>
\<close>

definition irreversible_ttl :: "settings \<Rightarrow> json \<Rightarrow> int \<Rightarrow> int" where
  "irreversible_ttl cfg jsonrpc_response last_irreversible_block_num =
     (case block_num_from_jsonrpc_response jsonrpc_response of
        Inr jrpc_block_num \<Rightarrow>
          (if last_irreversible_block_num < jrpc_block_num then NO_CACHE cfg
           else NO_EXPIRE cfg)
      | Inl e \<Rightarrow> NO_CACHE cfg)"

text \<open>
  \<^verbatim>\<open>
  def jsonrpc_cache_key(single_jsonrpc_request: SingleJsonRpcRequest) -> str:
      return method_urn(single_jsonrpc_request)

  def ttl_from_urn(urn: str) -> int:
      _, ttl = jussi.jsonrpc_method_cache_settings.TTLS.longest_prefix(urn)
      return ttl
  \<close>
\<close>

definition jsonrpc_cache_key :: "settings \<Rightarrow> dict \<Rightarrow> string" where
  "jsonrpc_cache_key cfg single_jsonrpc_request = method_urn cfg single_jsonrpc_request"

definition ttl_from_urn :: "settings \<Rightarrow> string \<Rightarrow> int" where
  "ttl_from_urn cfg urn = snd (TTLS_longest_prefix cfg urn)"

text \<open>
  What the write path and the orchestrator do to the outside is recorded as a trace of
  events, in the order of the calls: a lookup in the rule table, a call of the
  irreversibility resolver, a \<^verbatim>\<open>cache.set(key, value, ttl=ttl)\<close> on the backend at an index
  of the configured list, a call of the wrapped upstream function.
\<close>

datatype event =
    TtlLookup string
  | IrreversibleCall
  | SetCall nat string json int
  | UpstreamCall

text \<open>
  \<^verbatim>\<open>
  def ttl_from_jsonrpc_request(single_jsonrpc_request, last_irreversible_block_num=0,
                               jsonrpc_response=None) -> int:
      urn = jsonrpc_cache_key(single_jsonrpc_request=single_jsonrpc_request)
      ttl = ttl_from_urn(urn)
      if ttl == jussi.jsonrpc_method_cache_settings.NO_EXPIRE_IF_IRREVERSIBLE:
          ttl = irreversible_ttl(jsonrpc_response,last_irreversible_block_num)
      return ttl
  \<close>
  The result is paired with the trace of the two calls it makes.
\<close>

definition ttl_from_jsonrpc_request ::
  "settings \<Rightarrow> dict \<Rightarrow> int \<Rightarrow> json \<Rightarrow> event list \<times> int" where
  "ttl_from_jsonrpc_request cfg single_jsonrpc_request lib jsonrpc_response =
     (let urn = jsonrpc_cache_key cfg single_jsonrpc_request;
          ttl = ttl_from_urn cfg urn
      in if ttl = NO_EXPIRE_IF_IRREVERSIBLE cfg
         then ([TtlLookup urn, IrreversibleCall], irreversible_ttl cfg jsonrpc_response lib)
         else ([TtlLookup urn], ttl))"

text \<open>
  \<^verbatim>\<open>
  def memory_cache_ttl(ttl: int, max_ttl=60) -> int:
      if ttl > max_ttl:
          ttl = max_ttl
      return ttl
  \<close>
\<close>

definition memory_cache_ttl :: "int \<Rightarrow> int \<Rightarrow> int" where
  "memory_cache_ttl ttl max_ttl = (if ttl > max_ttl then max_ttl else ttl)"

section \<open>Backends and the request\<close>

text \<open>
  A configured backend is an \<^verbatim>\<open>aiocache\<close> cache object: its class, which
  \<^verbatim>\<open>cache_set\<close> tests with \<^verbatim>\<open>isinstance(cache, aiocache.SimpleMemoryCache)\<close>, and what
  awaiting its \<^verbatim>\<open>get(key)\<close> gives: a value (\<^verbatim>\<open>None\<close> on a miss) or an exception.
\<close>

datatype cache_class = SimpleMemoryCache | RedisCache

record cache =
  cache_class :: cache_class
  get_result :: "string \<Rightarrow> error + json"

record app_config =
  caches :: "cache list"
  last_irreversible_block_num :: int

record http_request =
  request_json :: dict
  config :: app_config

section \<open>The multi-backend read\<close>

text \<open>
  Modelled from the spec: the decorator \<^verbatim>\<open>ignore_errors_async\<close> of \<^verbatim>\<open>jussi.utils\<close> is
  not part of this module. The spec describes it as exception-based error suppression
  that turns a failure into the empty result: the decorated coroutine returns its value,
  and \<^verbatim>\<open>None\<close> when its body raised.
\<close>

definition ignore_errors_async :: "error + json \<Rightarrow> json" where
  "ignore_errors_async r = (case r of Inl e \<Rightarrow> JNull | Inr v \<Rightarrow> v)"

text \<open>
  \<^verbatim>\<open>asyncio.as_completed(aws)\<close> yields the awaitables in the order in which they
  complete. That order is decided by the event loop and the backends; it is a parameter:
  the list of the positions of \<^verbatim>\<open>aws\<close> in completion order.
\<close>

definition as_completed :: "nat list \<Rightarrow> 'a list \<Rightarrow> 'a list" where
  "as_completed order aws = map (\<lambda>i. aws ! i) (filter (\<lambda>i. i < length aws) order)"

text \<open>
  \<^verbatim>\<open>
  @ignore_errors_async
  async def cache_get(sanic_http_request: HTTPRequest) -> Optional[dict]:
      caches = sanic_http_request.app.config.caches
      key = jsonrpc_cache_key(single_jsonrpc_request=sanic_http_request.json)
      for result in asyncio.as_completed([cache.get(key) for cache in caches]):
          response = await result
          if response:
              return merge_cached_response(response, sanic_http_request.json)
  \<close>
  \<^verbatim>\<open>await result\<close> re-raises the exception of a failed \<^verbatim>\<open>get\<close>, which leaves the loop;
  so does an exception of \<^verbatim>\<open>merge_cached_response\<close>. Falling off the end of the loop
  returns \<^verbatim>\<open>None\<close>. A result the loop passes over is one that was returned, not raised,
  and is falsy: \<open>is_miss\<close>.
\<close>

fun is_miss :: "error + json \<Rightarrow> bool" where
  "is_miss (Inl e) = False"
| "is_miss (Inr response) = (\<not> truthy response)"

fun cache_get_loop :: "dict \<Rightarrow> (error + json) list \<Rightarrow> error + json" where
  "cache_get_loop jsonrpc_request [] = Inr JNull"
| "cache_get_loop jsonrpc_request (result # results) =
     (case result of
        Inl e \<Rightarrow> Inl e
      | Inr response \<Rightarrow>
          (if truthy response then merge_cached_response response jsonrpc_request
           else cache_get_loop jsonrpc_request results))"

definition cache_get :: "settings \<Rightarrow> nat list \<Rightarrow> http_request \<Rightarrow> json" where
  "cache_get cfg order sanic_http_request =
     (let key = jsonrpc_cache_key cfg (request_json sanic_http_request)
      in ignore_errors_async
           (cache_get_loop (request_json sanic_http_request)
              (as_completed order
                 (map (\<lambda>c. get_result c key) (caches (config sanic_http_request))))))"

section \<open>The multi-backend write\<close>

text \<open>
  \<^verbatim>\<open>
  @ignore_errors_async
  async def cache_set(sanic_http_request, value, ttl=None, **kwargs):
      last_irreversible_block_num = sanic_http_request.app.config.last_irreversible_block_num
      ttl = ttl or ttl_from_jsonrpc_request(sanic_http_request.json,
                                            last_irreversible_block_num, value)
      caches = sanic_http_request.app.config.caches
      key = jsonrpc_cache_key(single_jsonrpc_request=sanic_http_request.json)
      for cache in caches:
          if isinstance(cache, aiocache.SimpleMemoryCache):
              ttl = memory_cache_ttl(ttl)
          if ttl == jussi.jsonrpc_method_cache_settings.NO_CACHE:
              return
          asyncio.ensure_future(cache.set(key, value, ttl=ttl, **kwargs))
  \<close>
  The loop carries the variable \<^verbatim>\<open>ttl\<close> from one backend to the next, and its
  \<^verbatim>\<open>return\<close> ends the whole function; \<open>backend_ttl\<close> is the first statement of
  its body, the TTL after the adjustment for the class of the backend. Each \<^verbatim>\<open>cache.set\<close> runs as a detached task, so
  the body raises nothing and the decorator has nothing to suppress; the keyword
  arguments passed through to \<^verbatim>\<open>set\<close> are left out.
\<close>

definition backend_ttl :: "cache \<Rightarrow> int \<Rightarrow> int" where
  "backend_ttl c ttl =
     (if cache_class c = SimpleMemoryCache then memory_cache_ttl ttl 60 else ttl)"

fun cache_set_loop ::
  "settings \<Rightarrow> string \<Rightarrow> json \<Rightarrow> (nat \<times> cache) list \<Rightarrow> int \<Rightarrow> event list" where
  "cache_set_loop cfg key v [] ttl = []"
| "cache_set_loop cfg key v ((i, c) # cs) ttl =
     (let ttl' = backend_ttl c ttl
      in if ttl' = NO_CACHE cfg then []
         else SetCall i key v ttl' # cache_set_loop cfg key v cs ttl')"


definition cache_set :: "settings \<Rightarrow> http_request \<Rightarrow> json \<Rightarrow> int option \<Rightarrow> event list" where
  "cache_set cfg sanic_http_request v ttl =
     (let lib = last_irreversible_block_num (config sanic_http_request);
          (evs, ttl') =
            (case ttl of
               Some t \<Rightarrow>
                 if t \<noteq> 0 then ([], t)
                 else ttl_from_jsonrpc_request cfg (request_json sanic_http_request) lib v
             | None \<Rightarrow> ttl_from_jsonrpc_request cfg (request_json sanic_http_request) lib v);
          key = jsonrpc_cache_key cfg (request_json sanic_http_request)
      in evs @ cache_set_loop cfg key v (enumerate 0 (caches (config sanic_http_request))) ttl')"

text \<open>
  \<^verbatim>\<open>
  async def cache_json_response(sanic_http_request, value: dict) -> None:
      if 'error' in value:
          return
      asyncio.ensure_future(cache_set(sanic_http_request, value))
  \<close>
\<close>

definition cache_json_response :: "settings \<Rightarrow> http_request \<Rightarrow> dict \<Rightarrow> event list" where
  "cache_json_response cfg sanic_http_request v =
     (if has_key v ''error'' then []
      else cache_set cfg sanic_http_request (JDict v) None)"

section \<open>The orchestrator\<close>

text \<open>
  \<^verbatim>\<open>
  @decorator
  async def cacher(call):
      sanic_http_request = call.sanic_http_request
      json_response = await cache_get(sanic_http_request)
      if json_response:
          return json_response
      json_response = await call()
      asyncio.ensure_future(
          cache_json_response(sanic_http_request, json_response))
      return json_response
  \<close>
  The wrapped call is a function of the request that returns a response or raises; an
  exception of \<^verbatim>\<open>await call()\<close> leaves \<^verbatim>\<open>cacher\<close> before the write is scheduled. The
  write is a detached task: the trace records what it does, and the value returned does
  not depend on it.
\<close>

definition cacher ::
  "settings \<Rightarrow> nat list \<Rightarrow> http_request \<Rightarrow> (dict \<Rightarrow> error + dict) \<Rightarrow> (error + json) \<times> event list" where
  "cacher cfg order sanic_http_request call =
     (let json_response = cache_get cfg order sanic_http_request
      in if truthy json_response then (Inr json_response, [])
         else
           (case call (request_json sanic_http_request) of
              Inl e \<Rightarrow> (Inl e, [UpstreamCall])
            | Inr json_response' \<Rightarrow>
                (Inr (JDict json_response'),
                 UpstreamCall # cache_json_response cfg sanic_http_request json_response')))"

text \<open>
  A configuration to run the definitions on: the sentinels are distinct ints with
  \<open>NO_CACHE\<close> negative, \<^verbatim>\<open>get_block\<close> is resolved by irreversibility,
  \<^verbatim>\<open>get_config\<close> is cached for 100 seconds and every other method for 3 seconds.
\<close>

definition example_settings :: settings where
  "example_settings =
     \<lparr> NO_CACHE = - 1, NO_EXPIRE = 0, NO_EXPIRE_IF_IRREVERSIBLE = - 2,
       TTLS_longest_prefix =
         (\<lambda>urn. if urn = ''steemd.database_api.get_block'' then (urn, - 2)
                 else if urn = ''steemd.database_api.get_config'' then (urn, 100)
                 else (''steemd'', 3)),
       method_urn =
         (\<lambda>r. case map_of r ''method'' of Some (JStr m) \<Rightarrow> ''steemd.database_api.'' @ m
               | _ \<Rightarrow> ''steemd'') \<rparr>"


text \<open>
  Backends and a request to run the definitions on: a networked backend whose \<^verbatim>\<open>get\<close>
  raises, a memory backend holding a response, a memory backend and a networked backend
  that miss, and a networked backend holding an empty dict.
\<close>

definition failing_backend :: cache where
  "failing_backend = \<lparr> cache_class = RedisCache, get_result = (\<lambda>key. Inl BackendError) \<rparr>"

definition hit_backend :: cache where
  "hit_backend =
     \<lparr> cache_class = SimpleMemoryCache,
       get_result = (\<lambda>key. Inr (JDict [(''id'', JInt 1), (''result'', JStr ''x'')])) \<rparr>"

definition memory_backend :: cache where
  "memory_backend = \<lparr> cache_class = SimpleMemoryCache, get_result = (\<lambda>key. Inr JNull) \<rparr>"

definition redis_backend :: cache where
  "redis_backend = \<lparr> cache_class = RedisCache, get_result = (\<lambda>key. Inr JNull) \<rparr>"

definition empty_dict_backend :: cache where
  "empty_dict_backend = \<lparr> cache_class = RedisCache, get_result = (\<lambda>key. Inr (JDict [])) \<rparr>"

definition example_request :: "string \<Rightarrow> cache list \<Rightarrow> http_request" where
  "example_request m cs =
     \<lparr> request_json = [(''id'', JInt 42), (''method'', JStr m)],
       config = \<lparr> caches = cs, last_irreversible_block_num = 100 \<rparr> \<rparr>"

section \<open>Properties of the response merger\<close>

lemma has_key_map_of: "has_key d k \<longleftrightarrow> map_of d k \<noteq> None"
  by (simp add: has_key_def map_of_eq_None_iff)

text \<open>
  C6: when the merge returns, the merged response carries the id of the live request if
  the request has one and no id at all if it has none, and every other field of the
  cached response is as it was. The merge returns whenever the request or the cached
  response has an id.
\<close>

theorem merge_cached_response_id:
  "(merge_cached_response (JDict cached_response) jsonrpc_request = Inr merged \<longrightarrow>
      (\<exists>m. merged = JDict m
         \<and> (has_key jsonrpc_request ''id'' \<longrightarrow> map_of m ''id'' = map_of jsonrpc_request ''id'')
         \<and> (\<not> has_key jsonrpc_request ''id'' \<longrightarrow> \<not> has_key m ''id'')
         \<and> (\<forall>k. k \<noteq> ''id'' \<longrightarrow> map_of m k = map_of cached_response k)))
   \<and> (has_key jsonrpc_request ''id'' \<or> has_key cached_response ''id''
        \<longrightarrow> (\<exists>m. merge_cached_response (JDict cached_response) jsonrpc_request = Inr (JDict m)))"
  by (auto simp: has_key_map_of update_conv' delete_conv' split: option.splits if_splits)

theorem merge_cached_response_id_witness:
  "merge_cached_response (JDict [(''id'', JInt 1), (''result'', JStr ''x'')]) [(''id'', JInt 42)]
     = Inr (JDict [(''id'', JInt 42), (''result'', JStr ''x'')])
   \<and> has_key [(''id'', JInt 42)] ''id''
   \<and> map_of [(''id'', JInt 42), (''result'', JStr ''x'')] ''id'' = map_of [(''id'', JInt 42)] ''id''
   \<and> map_of [(''id'', JInt 42), (''result'', JStr ''x'')] ''result''
       = map_of [(''id'', JInt 1), (''result'', JStr ''x'')] ''result''
   \<and> merge_cached_response (JDict [(''id'', JInt 1), (''result'', JStr ''x'')]) []
       = Inr (JDict [(''result'', JStr ''x'')])
   \<and> \<not> has_key [] ''id'' \<and> \<not> has_key [(''result'', JStr ''x'')] ''id''"
  using merge_cached_response_id
    [of "[(''id'', JInt 1), (''result'', JStr ''x'')]" "[(''id'', JInt 42)]"
        "JDict [(''id'', JInt 42), (''result'', JStr ''x'')]"]
    merge_cached_response_id
    [of "[(''id'', JInt 1), (''result'', JStr ''x'')]" "[]" "JDict [(''result'', JStr ''x'')]"]
  by (simp add: has_key_def AList.delete_eq)

text \<open>
  C8: a cached response without an id merged against a request without an id raises
  KeyError, and the merge of a dict returns exactly when the cached response or the
  request has an id.
\<close>

theorem merge_cached_response_no_id_raises:
  "(\<not> has_key cached_response ''id'' \<and> \<not> has_key jsonrpc_request ''id''
      \<longrightarrow> merge_cached_response (JDict cached_response) jsonrpc_request = Inl KeyError)
   \<and> ((\<exists>m. merge_cached_response (JDict cached_response) jsonrpc_request = Inr m)
        \<longleftrightarrow> has_key cached_response ''id'' \<or> has_key jsonrpc_request ''id'')"
  by (auto simp: has_key_map_of split: option.splits)

theorem merge_cached_response_no_id_raises_witness:
  "\<not> has_key [(''result'', JStr ''x'')] ''id'' \<and> \<not> has_key [(''method'', JStr ''m'')] ''id''
   \<and> merge_cached_response (JDict [(''result'', JStr ''x'')]) [(''method'', JStr ''m'')] = Inl KeyError"
  using merge_cached_response_no_id_raises
    [of "[(''result'', JStr ''x'')]" "[(''method'', JStr ''m'')]"]
  by (simp add: has_key_def)

section \<open>Properties of the write path\<close>

lemma cache_set_None:
  "cache_set cfg req v None
     = fst (ttl_from_jsonrpc_request cfg (request_json req)
              (last_irreversible_block_num (config req)) v)
       @ cache_set_loop cfg (jsonrpc_cache_key cfg (request_json req)) v
           (enumerate 0 (caches (config req)))
           (snd (ttl_from_jsonrpc_request cfg (request_json req)
                   (last_irreversible_block_num (config req)) v))"
  by (simp add: cache_set_def Let_def split: prod.splits)


lemma ttl_trace_lookup:
  "TtlLookup (jsonrpc_cache_key cfg r) \<in> set (fst (ttl_from_jsonrpc_request cfg r lib response))"
  by (simp add: ttl_from_jsonrpc_request_def Let_def)

text \<open>
  C4: for a response with an \<^verbatim>\<open>error\<close> field the write path does nothing at all: its
  trace is empty, so no backend receives a \<^verbatim>\<open>set\<close>, the rule table is not consulted and
  the irreversibility resolver is not called. For every other response the trace does
  record the lookup in the rule table: the TTL is computed only after the check.
\<close>

theorem cache_json_response_error:
  "(has_key v ''error'' \<longrightarrow> cache_json_response cfg sanic_http_request v = [])
   \<and> (\<not> has_key v ''error'' \<longrightarrow>
        TtlLookup (jsonrpc_cache_key cfg (request_json sanic_http_request))
          \<in> set (cache_json_response cfg sanic_http_request v))"
  by (simp add: cache_json_response_def cache_set_None ttl_trace_lookup)

theorem cache_json_response_error_witness:
  "has_key [(''id'', JInt 42), (''error'', JStr ''boom'')] ''error''
   \<and> cache_json_response example_settings
        (example_request ''get_config'' [memory_backend, redis_backend])
        [(''id'', JInt 42), (''error'', JStr ''boom'')] = []"
  using cache_json_response_error
    [of "[(''id'', JInt 42), (''error'', JStr ''boom'')]" example_settings
        "example_request ''get_config'' [memory_backend, redis_backend]"]
  by (simp add: has_key_def)


lemma cache_set_loop_sound:
  "e \<in> set (cache_set_loop cfg key v ics t) \<Longrightarrow>
     \<exists>i c t'. (i, c) \<in> set ics \<and> e = SetCall i key v t' \<and> t' \<noteq> NO_CACHE cfg"
proof (induction ics arbitrary: t)
  case Nil
  then show ?case by simp
next
  case (Cons ic ics)
  obtain i c where ic: "ic = (i, c)" by (cases ic)
  show ?case
  proof (cases "backend_ttl c t = NO_CACHE cfg")
    case True
    with Cons.prems ic show ?thesis by simp
  next
    case False
    with Cons.prems ic have "e = SetCall i key v (backend_ttl c t)
        \<or> e \<in> set (cache_set_loop cfg key v ics (backend_ttl c t))"
      by (simp add: Let_def)
    then show ?thesis
    proof
      assume "e = SetCall i key v (backend_ttl c t)"
      with False ic show ?thesis by auto
    next
      assume "e \<in> set (cache_set_loop cfg key v ics (backend_ttl c t))"
      from Cons.IH [OF this] show ?thesis by auto
    qed
  qed
qed








text \<open>
  Whatever the order of the backends, a memory backend that receives a \<^verbatim>\<open>set\<close>
  receives the directive capped at 60.
\<close>

lemma backend_ttl_memory_cache_ttl:
  "memory_cache_ttl (backend_ttl c t) 60 = memory_cache_ttl t 60"
  by (simp add: backend_ttl_def memory_cache_ttl_def)

lemma cache_set_loop_memory_ttl:
  "SetCall i key v t' \<in> set (cache_set_loop cfg key v (enumerate n cs) t) \<Longrightarrow>
     n \<le> i \<Longrightarrow> cache_class (cs ! (i - n)) = SimpleMemoryCache \<Longrightarrow>
     t' = memory_cache_ttl t 60"
proof (induction cs arbitrary: n t)
  case Nil
  then show ?case by simp
next
  case (Cons c cs)
  from Cons.prems(1) have ne: "backend_ttl c t \<noteq> NO_CACHE cfg"
    by (auto simp: Let_def split: if_splits)
  with Cons.prems(1) have "(i = n \<and> t' = backend_ttl c t)
      \<or> SetCall i key v t'
          \<in> set (cache_set_loop cfg key v (enumerate (Suc n) cs) (backend_ttl c t))"
    by (auto simp: Let_def)
  then show ?case
  proof
    assume "i = n \<and> t' = backend_ttl c t"
    with Cons.prems(3) show ?thesis by (simp add: backend_ttl_def)
  next
    assume rest: "SetCall i key v t'
        \<in> set (cache_set_loop cfg key v (enumerate (Suc n) cs) (backend_ttl c t))"
    from cache_set_loop_sound [OF rest] have "Suc n \<le> i"
      by (auto simp: in_set_enumerate_eq)
    moreover from this Cons.prems(3)
    have "cache_class (cs ! (i - Suc n)) = SimpleMemoryCache"
      by (simp add: nth_Cons')
    ultimately have "t' = memory_cache_ttl (backend_ttl c t) 60"
      using Cons.IH [OF rest] by simp
    then show ?thesis by (simp add: backend_ttl_memory_cache_ttl)
  qed
qed

text \<open>
  C2: the configured list has the memory backend before the networked one, the rule
  table gives the method 100 seconds, and the response is cacheable. The memory backend
  receives 60; the networked backend, iterated after it, receives 60 as well, because
  the loop has overwritten its variable \<^verbatim>\<open>ttl\<close>. With the two backends in the other
  order the networked backend receives 100.
\<close>

theorem cache_set_memory_first_caps_networked:
  "cache_json_response example_settings
     (example_request ''get_config'' [memory_backend, redis_backend])
     [(''id'', JInt 42), (''result'', JStr ''x'')]
   = [TtlLookup ''steemd.database_api.get_config'',
      SetCall 0 ''steemd.database_api.get_config''
        (JDict [(''id'', JInt 42), (''result'', JStr ''x'')]) 60,
      SetCall 1 ''steemd.database_api.get_config''
        (JDict [(''id'', JInt 42), (''result'', JStr ''x'')]) 60]
   \<and> cache_json_response example_settings
     (example_request ''get_config'' [redis_backend, memory_backend])
     [(''id'', JInt 42), (''result'', JStr ''x'')]
   = [TtlLookup ''steemd.database_api.get_config'',
      SetCall 0 ''steemd.database_api.get_config''
        (JDict [(''id'', JInt 42), (''result'', JStr ''x'')]) 100,
      SetCall 1 ''steemd.database_api.get_config''
        (JDict [(''id'', JInt 42), (''result'', JStr ''x'')]) 60]"
  by (simp add: cache_json_response_def cache_set_def has_key_def example_request_def
      example_settings_def ttl_from_jsonrpc_request_def ttl_from_urn_def jsonrpc_cache_key_def
      memory_backend_def redis_backend_def backend_ttl_def memory_cache_ttl_def
      enumerate_eq_zip upt_rec Let_def)

section \<open>Properties of the read path\<close>

lemma cache_get_loop_first_hit:
  "list_all is_miss pre \<Longrightarrow> truthy v \<Longrightarrow>
     cache_get_loop req (pre @ Inr v # post) = merge_cached_response v req"
proof (induction pre)
  case Nil
  then show ?case by simp
next
  case (Cons r pre)
  then show ?case by (cases r) simp_all
qed

lemma cache_get_loop_first_error:
  "list_all is_miss pre \<Longrightarrow> cache_get_loop req (pre @ Inl e # post) = Inl e"
proof (induction pre)
  case Nil
  then show ?case by simp
next
  case (Cons r pre)
  then show ?case by (cases r) simp_all
qed

lemma cache_get_loop_all_miss:
  "list_all is_miss rs \<Longrightarrow> cache_get_loop req rs = Inr JNull"
proof (induction rs)
  case Nil
  then show ?case by simp
next
  case (Cons r rs)
  then show ?case by (cases r) simp_all
qed

lemma cache_get_loop_falsy:
  "\<not> truthy v \<Longrightarrow>
     cache_get_loop req (pre @ Inr v # post) = cache_get_loop req (pre @ Inr JNull # post)"
proof (induction pre)
  case Nil
  then show ?case by simp
next
  case (Cons r pre)
  then show ?case by (cases r) simp_all
qed

text \<open>
  C1, as the claim states it, fails: backend A raises, backend B holds a non-empty
  response, and A completes first. \<^verbatim>\<open>await result\<close> raises inside the loop, the
  decorator suppresses the exception, and the read returns \<^verbatim>\<open>None\<close> although B has a
  value.
\<close>

theorem cache_get_error_before_hit:
  "get_result failing_backend ''steemd.database_api.get_x'' = Inl BackendError
   \<and> get_result hit_backend ''steemd.database_api.get_x''
       = Inr (JDict [(''id'', JInt 1), (''result'', JStr ''x'')])
   \<and> truthy (JDict [(''id'', JInt 1), (''result'', JStr ''x'')])
   \<and> cache_get example_settings [0, 1]
        (example_request ''get_x'' [failing_backend, hit_backend]) = JNull"
  by (simp add: cache_get_def Let_def ignore_errors_async_def as_completed_def
      example_request_def failing_backend_def hit_backend_def)

text \<open>
  C1, amended: let \<open>results\<close> be the results of the backends in completion order. If the
  first result that is not an empty value is a value \<open>v\<close>, the read returns \<open>v\<close> merged
  with the live request (\<^verbatim>\<open>None\<close> if the merge raises); if it is an exception, the read
  returns \<^verbatim>\<open>None\<close>, whatever the backends completing later hold; if every result is an
  empty value, the read returns \<^verbatim>\<open>None\<close>. The read never raises.
\<close>

theorem cache_get_first_completed:
  assumes "results = as_completed order
             (map (\<lambda>c. get_result c (jsonrpc_cache_key cfg (request_json req)))
                  (caches (config req)))"
  shows "(results = pre @ Inr v # post \<and> list_all is_miss pre \<and> truthy v \<longrightarrow>
            cache_get cfg order req
              = ignore_errors_async (merge_cached_response v (request_json req)))
       \<and> (results = pre @ Inl e # post \<and> list_all is_miss pre \<longrightarrow>
            cache_get cfg order req = JNull)
       \<and> (list_all is_miss results \<longrightarrow> cache_get cfg order req = JNull)"
proof -
  have cg: "cache_get cfg order req
      = ignore_errors_async (cache_get_loop (request_json req) results)"
    unfolding assms by (simp add: cache_get_def Let_def)
  show ?thesis
  proof (intro conjI impI)
    assume h: "results = pre @ Inr v # post \<and> list_all is_miss pre \<and> truthy v"
    then have "cache_get_loop (request_json req) results
        = merge_cached_response v (request_json req)"
      by (simp add: cache_get_loop_first_hit del: cache_get_loop.simps)
    with cg show "cache_get cfg order req
        = ignore_errors_async (merge_cached_response v (request_json req))"
      by simp
  next
    assume h: "results = pre @ Inl e # post \<and> list_all is_miss pre"
    then have "cache_get_loop (request_json req) results = Inl e"
      by (simp add: cache_get_loop_first_error del: cache_get_loop.simps)
    with cg show "cache_get cfg order req = JNull"
      by (simp add: ignore_errors_async_def)
  next
    assume "list_all is_miss results"
    then have "cache_get_loop (request_json req) results = Inr JNull"
      by (rule cache_get_loop_all_miss)
    with cg show "cache_get cfg order req = JNull"
      by (simp add: ignore_errors_async_def)
  qed
qed

theorem cache_get_first_completed_witness:
  "[Inr (JDict [(''id'', JInt 1), (''result'', JStr ''x'')]), Inl BackendError]
     = as_completed [1, 0]
         (map (\<lambda>c. get_result c (jsonrpc_cache_key example_settings
                  (request_json (example_request ''get_x'' [failing_backend, hit_backend]))))
              (caches (config (example_request ''get_x'' [failing_backend, hit_backend]))))
   \<and> list_all is_miss [] \<and> truthy (JDict [(''id'', JInt 1), (''result'', JStr ''x'')])
   \<and> cache_get example_settings [1, 0]
        (example_request ''get_x'' [failing_backend, hit_backend])
       = JDict [(''id'', JInt 42), (''result'', JStr ''x'')]"
proof -
  have res: "[Inr (JDict [(''id'', JInt 1), (''result'', JStr ''x'')]), Inl BackendError]
     = as_completed [1, 0]
         (map (\<lambda>c. get_result c (jsonrpc_cache_key example_settings
                  (request_json (example_request ''get_x'' [failing_backend, hit_backend]))))
              (caches (config (example_request ''get_x'' [failing_backend, hit_backend]))))"
    by (simp add: as_completed_def example_request_def failing_backend_def hit_backend_def)
  from cache_get_first_completed [OF res, of "[]"
      "JDict [(''id'', JInt 1), (''result'', JStr ''x'')]" "[Inl BackendError]"]
  have "cache_get example_settings [1, 0]
          (example_request ''get_x'' [failing_backend, hit_backend])
        = ignore_errors_async (merge_cached_response
            (JDict [(''id'', JInt 1), (''result'', JStr ''x'')])
            (request_json (example_request ''get_x'' [failing_backend, hit_backend])))"
    by simp
  then have "cache_get example_settings [1, 0]
          (example_request ''get_x'' [failing_backend, hit_backend])
        = JDict [(''id'', JInt 42), (''result'', JStr ''x'')]"
    by (simp add: example_request_def ignore_errors_async_def)
  with res show ?thesis by simp
qed

section \<open>Properties of the orchestrator\<close>

lemma cacher_no_hit:
  "\<not> truthy (cache_get cfg order req) \<Longrightarrow>
     cacher cfg order req call
       = (case call (request_json req) of
            Inl e \<Rightarrow> (Inl e, [UpstreamCall])
          | Inr response \<Rightarrow>
              (Inr (JDict response), UpstreamCall # cache_json_response cfg req response))"
  by (simp add: cacher_def Let_def)

lemma cacher_hit:
  "truthy (cache_get cfg order req) \<Longrightarrow>
     cacher cfg order req call = (Inr (cache_get cfg order req), [])"
  by (simp add: cacher_def Let_def)

text \<open>
  C7: when the read yields no hit (\<^verbatim>\<open>None\<close>, from a miss or from a suppressed failure),
  the orchestrator calls upstream and returns its response as it is; the write path only
  contributes to the trace after the call, never to the value returned, and an exception
  of the upstream call is passed on with nothing written. When the read yields a hit,
  the orchestrator returns it and its trace is empty: upstream is not called.
\<close>

theorem cacher_hit_or_delegate:
  "(\<not> truthy (cache_get cfg order req) \<and> call (request_json req) = Inr response \<longrightarrow>
      cacher cfg order req call
        = (Inr (JDict response), UpstreamCall # cache_json_response cfg req response))
   \<and> (\<not> truthy (cache_get cfg order req) \<and> call (request_json req) = Inl e \<longrightarrow>
      cacher cfg order req call = (Inl e, [UpstreamCall]))
   \<and> (truthy (cache_get cfg order req) \<longrightarrow>
      cacher cfg order req call = (Inr (cache_get cfg order req), [])
      \<and> UpstreamCall \<notin> set (snd (cacher cfg order req call)))"
proof (intro conjI impI)
  assume "\<not> truthy (cache_get cfg order req) \<and> call (request_json req) = Inr response"
  then show "cacher cfg order req call
      = (Inr (JDict response), UpstreamCall # cache_json_response cfg req response)"
    by (simp add: cacher_no_hit)
next
  assume "\<not> truthy (cache_get cfg order req) \<and> call (request_json req) = Inl e"
  then show "cacher cfg order req call = (Inl e, [UpstreamCall])"
    by (simp add: cacher_no_hit)
next
  assume "truthy (cache_get cfg order req)"
  then show "cacher cfg order req call = (Inr (cache_get cfg order req), [])"
    by (rule cacher_hit)
next
  assume "truthy (cache_get cfg order req)"
  then show "UpstreamCall \<notin> set (snd (cacher cfg order req call))"
    by (simp add: cacher_hit)
qed

theorem cacher_hit_or_delegate_witness:
  "\<not> truthy (cache_get example_settings [0, 1]
        (example_request ''get_x'' [failing_backend, hit_backend]))
   \<and> fst (cacher example_settings [0, 1]
        (example_request ''get_x'' [failing_backend, hit_backend])
        (\<lambda>r. Inr [(''id'', JInt 42), (''result'', JStr ''live'')]))
      = Inr (JDict [(''id'', JInt 42), (''result'', JStr ''live'')])
   \<and> truthy (cache_get example_settings [1, 0]
        (example_request ''get_x'' [failing_backend, hit_backend]))
   \<and> cacher example_settings [1, 0]
        (example_request ''get_x'' [failing_backend, hit_backend])
        (\<lambda>r. Inr [(''id'', JInt 42), (''result'', JStr ''live'')])
      = (Inr (JDict [(''id'', JInt 42), (''result'', JStr ''x'')]), [])"
proof -
  have miss: "cache_get example_settings [0, 1]
        (example_request ''get_x'' [failing_backend, hit_backend]) = JNull"
    by (simp add: cache_get_def Let_def ignore_errors_async_def as_completed_def
        example_request_def failing_backend_def hit_backend_def)
  have hit: "cache_get example_settings [1, 0]
        (example_request ''get_x'' [failing_backend, hit_backend])
      = JDict [(''id'', JInt 42), (''result'', JStr ''x'')]"
    by (simp add: cache_get_def Let_def ignore_errors_async_def as_completed_def
        example_request_def failing_backend_def hit_backend_def)
  from cacher_hit_or_delegate [of example_settings "[0, 1]"
      "example_request ''get_x'' [failing_backend, hit_backend]"
      "\<lambda>r. Inr [(''id'', JInt 42), (''result'', JStr ''live'')]"
      "[(''id'', JInt 42), (''result'', JStr ''live'')]"] miss
  have a: "fst (cacher example_settings [0, 1]
        (example_request ''get_x'' [failing_backend, hit_backend])
        (\<lambda>r. Inr [(''id'', JInt 42), (''result'', JStr ''live'')]))
      = Inr (JDict [(''id'', JInt 42), (''result'', JStr ''live'')])"
    by simp
  from cacher_hit_or_delegate [of example_settings "[1, 0]"
      "example_request ''get_x'' [failing_backend, hit_backend]"
      "\<lambda>r. Inr [(''id'', JInt 42), (''result'', JStr ''live'')]"] hit
  have b: "cacher example_settings [1, 0]
        (example_request ''get_x'' [failing_backend, hit_backend])
        (\<lambda>r. Inr [(''id'', JInt 42), (''result'', JStr ''live'')])
      = (Inr (JDict [(''id'', JInt 42), (''result'', JStr ''x'')]), [])"
    by simp
  from a b miss hit show ?thesis by simp
qed

text \<open>
  C10: a result that is present but falsy (an empty dict, empty bytes, zero) is passed
  over by the loop exactly as \<^verbatim>\<open>None\<close> is: replacing it by \<^verbatim>\<open>None\<close> changes nothing.
  When every backend returns a falsy result, the read returns \<^verbatim>\<open>None\<close> and the
  orchestrator calls upstream and returns what upstream gives.
\<close>

theorem falsy_result_is_miss:
  "(\<not> truthy v \<longrightarrow>
      cache_get_loop jsonrpc_request (pre @ Inr v # post)
        = cache_get_loop jsonrpc_request (pre @ Inr JNull # post))
   \<and> (list_all is_miss
         (as_completed order
            (map (\<lambda>c. get_result c (jsonrpc_cache_key cfg (request_json req)))
                 (caches (config req)))) \<longrightarrow>
       cache_get cfg order req = JNull
       \<and> fst (cacher cfg order req call) = map_sum id JDict (call (request_json req))
       \<and> UpstreamCall \<in> set (snd (cacher cfg order req call)))"
proof (intro conjI impI)
  assume "\<not> truthy v"
  then show "cache_get_loop jsonrpc_request (pre @ Inr v # post)
      = cache_get_loop jsonrpc_request (pre @ Inr JNull # post)"
    by (rule cache_get_loop_falsy)
next
  assume all: "list_all is_miss
         (as_completed order
            (map (\<lambda>c. get_result c (jsonrpc_cache_key cfg (request_json req)))
                 (caches (config req))))"
  then have none: "cache_get cfg order req = JNull"
    by (simp add: cache_get_def Let_def cache_get_loop_all_miss ignore_errors_async_def)
  then show "cache_get cfg order req = JNull" .
  from none have nt: "\<not> truthy (cache_get cfg order req)" by simp
  show "fst (cacher cfg order req call) = map_sum id JDict (call (request_json req))"
    by (cases "call (request_json req)") (simp_all add: cacher_no_hit [OF nt])
  show "UpstreamCall \<in> set (snd (cacher cfg order req call))"
    by (cases "call (request_json req)") (simp_all add: cacher_no_hit [OF nt])
qed

theorem falsy_result_is_miss_witness:
  "\<not> truthy (JDict [])
   \<and> list_all is_miss
        (as_completed [1, 0]
           (map (\<lambda>c. get_result c (jsonrpc_cache_key example_settings
                    (request_json (example_request ''get_x'' [memory_backend, empty_dict_backend]))))
                (caches (config (example_request ''get_x'' [memory_backend, empty_dict_backend])))))
   \<and> cache_get example_settings [1, 0]
        (example_request ''get_x'' [memory_backend, empty_dict_backend]) = JNull
   \<and> fst (cacher example_settings [1, 0]
        (example_request ''get_x'' [memory_backend, empty_dict_backend])
        (\<lambda>r. Inr [(''id'', JInt 42), (''result'', JStr ''live'')]))
      = Inr (JDict [(''id'', JInt 42), (''result'', JStr ''live'')])"
proof -
  have all: "list_all is_miss
        (as_completed [1, 0]
           (map (\<lambda>c. get_result c (jsonrpc_cache_key example_settings
                    (request_json (example_request ''get_x'' [memory_backend, empty_dict_backend]))))
                (caches (config (example_request ''get_x'' [memory_backend, empty_dict_backend])))))"
    by (simp add: as_completed_def example_request_def memory_backend_def empty_dict_backend_def)
  from falsy_result_is_miss [of "JDict []" "[]" "[]" "[]" "[1, 0]" example_settings
      "example_request ''get_x'' [memory_backend, empty_dict_backend]"
      "\<lambda>r. Inr [(''id'', JInt 42), (''result'', JStr ''live'')]"] all
  show ?thesis by simp
qed

section \<open>Properties of block-number extraction and of the resolver\<close>


























end
